theory Spec2Isabelle
  imports Complex_Main
begin

section \<open>JavaScript values, errors and tokens\<close>

text \<open>
  The OAuth core of the extension (\<^verbatim>\<open>futureToken\<close>, \<^verbatim>\<open>deserializeToken\<close>, \<^verbatim>\<open>toVault\<close>,
  \<^verbatim>\<open>fromVault\<close>, \<^verbatim>\<open>oauthLogin\<close>) is embedded as pure functions over an explicit world: the two module-level maps, the secret store, and the trace of calls made on the
  collaborators (login server, code grant, timer, refresh exchange, vault).

  TypeScript types are erased at run time, so what \<^verbatim>\<open>JSON.parse\<close> returns and what the
  truthiness tests of the source inspect are JavaScript values. Numbers enter only through
  their truthiness (zero or not) and through JSON texts, so a rational stands for them.
\<close>

datatype jsval =
    JUndefined
  | JNull
  | JBool bool
  | JNum rat
  | JStr string
  | JArr "jsval list"
  | JObj "(string \<times> jsval) list"

text \<open>ToBoolean: what \<^verbatim>\<open>if (v)\<close>, \<^verbatim>\<open>!v\<close>, \<^verbatim>\<open>a && b\<close> and \<^verbatim>\<open>a || b\<close> test.\<close>

fun truthy :: "jsval \<Rightarrow> bool" where
  "truthy JUndefined = False"
| "truthy JNull = False"
| "truthy (JBool b) = b"
| "truthy (JNum r) = (r \<noteq> 0)"
| "truthy (JStr s) = (s \<noteq> [])"
| "truthy (JArr _) = True"
| "truthy (JObj _) = True"

text \<open>
  Reading a property that is no built-in member (\<^verbatim>\<open>accessToken\<close>, \<^verbatim>\<open>refreshToken\<close>,
  \<^verbatim>\<open>tokenType\<close>): an object gives its own property or \<^verbatim>\<open>undefined\<close>, every other value
  that can be destructured gives \<^verbatim>\<open>undefined\<close>.
\<close>

fun getProp :: "jsval \<Rightarrow> string \<Rightarrow> jsval" where
  "getProp (JObj kvs) k = (case map_of kvs k of Some v \<Rightarrow> v | None \<Rightarrow> JUndefined)"
| "getProp _ k = JUndefined"

text \<open>
  What the source throws or rejects with: the \<^verbatim>\<open>SyntaxError\<close> of \<^verbatim>\<open>JSON.parse\<close>, and
  \<^verbatim>\<open>new Error(message)\<close>, which is also how the failures of the collaborators (secret store,
  refresh exchange, code grant) are carried.
\<close>

datatype error = SyntaxError | Error string

text \<open>
  \<^verbatim>\<open>Token\<close> and \<^verbatim>\<open>TokenData\<close>: the three fields the core reads, and the protocol metadata
  (expiry, scope, ...) it passes through. A \<^verbatim>\<open>TokenData\<close> is a token without metadata.
\<close>

record token =
  accessToken :: jsval
  refreshToken :: jsval
  tokenType :: jsval
  extras :: "(string \<times> jsval) list"

text \<open>
  Modelled from the spec: \<^verbatim>\<open>strip\<close> of \<^verbatim>\<open>grantStorage\<close> is not among the sources. The spec
  has it produce the minimal token: accessToken, refreshToken and tokenType are kept, the
  protocol fields are dropped.
\<close>

definition strip :: "token \<Rightarrow> token" where
  "strip t =
     \<lparr>accessToken = accessToken t, refreshToken = refreshToken t,
      tokenType = tokenType t, extras = []\<rparr>"

text \<open>A token as the object it is at run time, and an object read as a token.\<close>

definition tokenFields :: "string list" where
  "tokenFields = [''accessToken'', ''refreshToken'', ''tokenType'']"

definition objectOf :: "token \<Rightarrow> jsval" where
  "objectOf t =
     JObj ([(''accessToken'', accessToken t), (''refreshToken'', refreshToken t),
            (''tokenType'', tokenType t)] @ extras t)"

fun ownProps :: "jsval \<Rightarrow> (string \<times> jsval) list" where
  "ownProps (JObj kvs) = kvs"
| "ownProps _ = []"

definition tokenOf :: "jsval \<Rightarrow> token" where
  "tokenOf v =
     \<lparr>accessToken = getProp v ''accessToken'', refreshToken = getProp v ''refreshToken'',
      tokenType = getProp v ''tokenType'',
      extras = filter (\<lambda>kv. fst kv \<notin> set tokenFields) (ownProps v)\<rparr>"

section \<open>Configuration and collaborators\<close>

text \<open>
  \<^verbatim>\<open>RemoteConfig\<close> with its optional \<^verbatim>\<open>oauth\<close> object. A field of \<^verbatim>\<open>oauth\<close> may be missing
  (\<open>None\<close>) or empty (\<open>Some []\<close>); both are falsy.
\<close>

record oauthConf =
  clientId :: "string option"
  clientSecret :: "string option"
  loginUrl :: "string option"
  saveCredentials :: bool

record remoteConfig =
  name :: string
  oauth :: "oauthConf option"

text \<open>The options \<^verbatim>\<open>fromVault\<close> builds its \<^verbatim>\<open>ClientOAuth2\<close> with.\<close>

record clientOptions =
  authorizationUri :: string
  accessTokenUri :: string
  redirectUri :: string
  optClientId :: string
  optClientSecret :: string

text \<open>
  The functions the module imports and the sources do not hold are parameters:
  \<^verbatim>\<open>formatKey\<close> of \<^verbatim>\<open>config\<close>, the built-ins \<^verbatim>\<open>JSON.parse\<close> (which may throw) and
  \<^verbatim>\<open>JSON.stringify\<close>, and the refresh exchange
  \<^verbatim>\<open>new ClientOAuth2(options).createToken(a, r, t, {}).refresh()\<close>, which may reject.
\<close>

record env =
  formatKey :: "string \<Rightarrow> string"
  JSON_parse :: "string \<Rightarrow> error + jsval"
  JSON_stringify :: "jsval \<Rightarrow> string"
  refresh :: "clientOptions \<Rightarrow> token \<Rightarrow> error + token"

text \<open>
  The calls made on the collaborators, in the order they are made. A login server is named
  by the position of its \<open>LoginServer\<close> event in the trace, and so is the promise
  \<^verbatim>\<open>Promise.race([grant, timeout])\<close> built for it.
\<close>

datatype event =
    GetPassword string string
  | SetPassword string string string
  | Refresh clientOptions token
  | LoginServer nat
  | CodeGrant "string option" "string option" "string option" nat
  | After nat nat
  | ServerClose nat

text \<open>
  The mutable state: the map of \<^verbatim>\<open>grantStorage\<close> behind \<^verbatim>\<open>getToken\<close>/\<^verbatim>\<open>setToken\<close>, the
  module's \<^verbatim>\<open>pendingGrants\<close>, the secret store (what \<^verbatim>\<open>getPassword\<close> gives for a service and
  an account: a failure, nothing, or the secret) and the trace.
\<close>

record world =
  tokens :: "string \<rightharpoonup> token"
  pendingGrants :: "string \<rightharpoonup> nat"
  vault :: "string \<Rightarrow> string \<Rightarrow> error + string option"
  trace :: "event list"

definition call :: "event list \<Rightarrow> world \<Rightarrow> world" where
  "call es w = w\<lparr>trace := trace w @ es\<rparr>"

text \<open>
  Modelled from the spec: \<^verbatim>\<open>getToken\<close> and \<^verbatim>\<open>setToken\<close> of \<^verbatim>\<open>grantStorage\<close> are not among
  the sources. The spec has TokenStore be an in-memory map from connection identifier to
  token with get and set, a miss being a normal outcome.
\<close>

definition getToken :: "string \<Rightarrow> world \<Rightarrow> token option" where
  "getToken connId w = tokens w connId"

definition setToken :: "string \<Rightarrow> token \<Rightarrow> world \<Rightarrow> world" where
  "setToken connId t w = w\<lparr>tokens := (tokens w)(connId \<mapsto> t)\<rparr>"

section \<open>The module\<close>

subsection \<open>futureToken\<close>




subsection \<open>The vault record\<close>

definition vaultId :: "env \<Rightarrow> string \<Rightarrow> string" where
  "vaultId ev conn = ''vscode_git_'' @ formatKey ev conn"

text \<open>
  \<^verbatim>\<open>deserializeToken\<close>: \<^verbatim>\<open>s && JSON.parse(s)\<close>, then the three fields of \<^verbatim>\<open>data || {}\<close>, and
  \<^verbatim>\<open>strip(data)\<close> when all three are truthy. \<open>Inl\<close> is the exception of \<^verbatim>\<open>JSON.parse\<close>.
\<close>

definition deserializeToken :: "env \<Rightarrow> string option \<Rightarrow> error + token option" where
  "deserializeToken ev s =
     (case (case s of
              None \<Rightarrow> Inr JUndefined
            | Some str \<Rightarrow> if str = [] then Inr (JStr []) else JSON_parse ev str) of
        Inl e \<Rightarrow> Inl e
      | Inr data \<Rightarrow>
          (let obj = (if truthy data then data else JObj [])
           in if truthy (getProp obj ''accessToken'') \<and> truthy (getProp obj ''refreshToken'')
                 \<and> truthy (getProp obj ''tokenType'')
              then Inr (Some (strip (tokenOf data)))
              else Inr None))"

definition serializeToken :: "env \<Rightarrow> token \<Rightarrow> string" where
  "serializeToken ev data = JSON_stringify ev (objectOf data)"

text \<open>
  The guard both vault paths share: the three fields of \<^verbatim>\<open>conf.oauth || {}\<close>, and
  \<^verbatim>\<open>clientId && clientSecret && loginUrl\<close>.
\<close>

definition credentials :: "oauthConf option \<Rightarrow> (string \<times> string \<times> string) option" where
  "credentials oa =
     (case oa of
        None \<Rightarrow> None
      | Some c \<Rightarrow>
          (case (clientId c, clientSecret c, loginUrl c) of
             (Some cid, Some cs, Some url) \<Rightarrow>
               if cid \<noteq> [] \<and> cs \<noteq> [] \<and> url \<noteq> [] then Some (cid, cs, url) else None
           | _ \<Rightarrow> None))"

text \<open>
  \<^verbatim>\<open>toVault\<close>. Its caller does not await it; the effect is the \<^verbatim>\<open>setPassword\<close> it issues,
  after which the store gives the new secret.
\<close>

definition toVault :: "env \<Rightarrow> remoteConfig \<Rightarrow> token \<Rightarrow> world \<Rightarrow> world" where
  "toVault ev conf t w =
     (let serialized = serializeToken ev (strip t)
      in case credentials (oauth conf) of
           None \<Rightarrow> w
         | Some (cid, cs, url) \<Rightarrow>
             call [SetPassword (vaultId ev (name conf)) cid serialized]
               (w\<lparr>vault := (vault w)
                    (vaultId ev (name conf) := (vault w (vaultId ev (name conf)))
                       (cid := Inr (Some serialized)))\<rparr>))"

definition oauthOptions :: "string \<Rightarrow> string \<Rightarrow> string \<Rightarrow> clientOptions" where
  "oauthOptions url cid cs =
     \<lparr>authorizationUri = url @ ''/oauth/authorize'',
      accessTokenUri = url @ ''/oauth/token'',
      redirectUri = ''http://localhost/notfound'',
      optClientId = cid, optClientSecret = cs\<rparr>"

definition createToken :: "jsval \<Rightarrow> jsval \<Rightarrow> jsval \<Rightarrow> token" where
  "createToken a r t = \<lparr>accessToken = a, refreshToken = r, tokenType = t, extras = []\<rparr>"

text \<open>The body of the \<^verbatim>\<open>try\<close> block of \<^verbatim>\<open>fromVault\<close>; \<open>Inl\<close> is what it throws.\<close>

definition fromVaultTry ::
  "env \<Rightarrow> remoteConfig \<Rightarrow> string \<Rightarrow> string \<Rightarrow> string \<Rightarrow> world \<Rightarrow> (error + token option) \<times> world"
where
  "fromVaultTry ev conf cid cs url w =
     (let w1 = call [GetPassword (vaultId ev (name conf)) cid] w
      in case vault w (vaultId ev (name conf)) cid of
           Inl e \<Rightarrow> (Inl e, w1)
         | Inr tp \<Rightarrow>
             (case (if tp = None \<or> tp = Some [] then Inr None else deserializeToken ev tp) of
                Inl e \<Rightarrow> (Inl e, w1)
              | Inr None \<Rightarrow> (Inr None, w1)
              | Inr (Some td) \<Rightarrow>
                  (let handle = createToken (accessToken td) (refreshToken td) (tokenType td);
                       w2 = call [Refresh (oauthOptions url cid cs) handle] w1
                   in case refresh ev (oauthOptions url cid cs) handle of
                        Inl e \<Rightarrow> (Inl e, w2)
                      | Inr tok \<Rightarrow> (Inr (Some (strip tok)), w2))))"

text \<open>
  \<^verbatim>\<open>fromVault\<close>: the guard, then the \<^verbatim>\<open>try\<close> block with its \<^verbatim>\<open>catch\<close>. The result is how
  the returned promise settles: \<open>Inr\<close> an fp-ts option, \<open>Inl\<close> a rejection.
\<close>

definition fromVault :: "env \<Rightarrow> remoteConfig \<Rightarrow> world \<Rightarrow> (error + token option) \<times> world" where
  "fromVault ev conf w =
     (case credentials (oauth conf) of
        None \<Rightarrow> (Inr None, w)
      | Some (cid, cs, url) \<Rightarrow>
          (case fromVaultTry ev conf cid cs url w of
             (Inl error, w') \<Rightarrow> (Inr None, w')
           | (Inr r, w') \<Rightarrow> (Inr r, w')))"

subsection \<open>oauthLogin\<close>

text \<open>
  The returned closure runs in three stretches, cut where it awaits.
  Lines 61 to 64: the lookup in the token store and, when \<^verbatim>\<open>saveCredentials\<close> is set and the
  store has nothing, the restore from the vault. The result is the local \<^verbatim>\<open>oldGrant\<close>.
\<close>

definition loginLookup ::
  "env \<Rightarrow> remoteConfig \<Rightarrow> oauthConf \<Rightarrow> world \<Rightarrow> (error + token option) \<times> world"
where
  "loginLookup ev conf oa w =
     (let connId = formatKey ev (name conf);
          oldGrant = getToken connId w
      in if saveCredentials oa \<and> oldGrant = None then fromVault ev conf w
         else (Inr oldGrant, w))"

text \<open>
  Lines 65 to 74: the fast return, or the login server, the code grant, the timer and the
  registration of the race. \<open>Inl\<close> is the value returned at once, \<open>Inr\<close> the race the
  closure then awaits.
\<close>

definition loginStart ::
  "env \<Rightarrow> remoteConfig \<Rightarrow> oauthConf \<Rightarrow> token option \<Rightarrow> world \<Rightarrow> (jsval + nat) \<times> world"
where
  "loginStart ev conf oa oldGrant w =
     (case oldGrant of
        Some g \<Rightarrow> (Inl (accessToken g), w)
      | None \<Rightarrow>
          (let connId = formatKey ev (name conf);
               server = length (trace w);
               w1 = call [LoginServer server,
                          CodeGrant (loginUrl oa) (clientId oa) (clientSecret oa) server,
                          After 60000 server] w
           in (Inr server,
               w1\<lparr>pendingGrants := (pendingGrants w1)(formatKey ev connId \<mapsto> server)\<rparr>)))"

text \<open>The callback of the timer, when it fires: it closes the server and throws.\<close>

definition timeoutFires :: "nat \<Rightarrow> world \<Rightarrow> (error + token) \<times> world" where
  "timeoutFires server w = (Inl (Error ''User logon timed out''), call [ServerClose server] w)"

text \<open>
  Lines 75 to 79, run when the awaited race has settled. A rejection is thrown by the
  \<^verbatim>\<open>await\<close> and ends the closure there. The grant resolves with a \<^verbatim>\<open>Token\<close> object, which is
  truthy, so the test of line 76 passes.
\<close>

definition loginSettle ::
  "env \<Rightarrow> remoteConfig \<Rightarrow> oauthConf \<Rightarrow> error + token \<Rightarrow> world \<Rightarrow> (error + jsval) \<times> world"
where
  "loginSettle ev conf oa settled w =
     (case settled of
        Inl e \<Rightarrow> (Inl e, w)
      | Inr result \<Rightarrow>
          (let connId = formatKey ev (name conf);
               w1 = setToken connId result w;
               w2 = w1\<lparr>pendingGrants := (pendingGrants w1)(formatKey ev connId := None)\<rparr>;
               w3 = (if saveCredentials oa then toVault ev conf result w2 else w2)
           in (Inr (accessToken result), w3)))"

text \<open>
  Which of the two promises of the race settles first: the grant, with its outcome, or the
  timer.
\<close>

datatype race = GrantFirst "error + token" | TimeoutFirst

definition raceSettles :: "nat \<Rightarrow> race \<Rightarrow> world \<Rightarrow> (error + token) \<times> world" where
  "raceSettles server r w =
     (case r of GrantFirst settled \<Rightarrow> (settled, w) | TimeoutFirst \<Rightarrow> timeoutFires server w)"

text \<open>
  One call of the closure with nothing else running in between. \<open>loginBegin\<close> is the call
  up to the point where it has returned, has been rejected, or awaits its race: \<open>Inl\<close> is
  how it settled at once, \<open>Inr\<close> the race it awaits. \<open>login\<close> is the whole call, given
  which promise of the race settles first.
\<close>

definition loginBegin ::
  "env \<Rightarrow> remoteConfig \<Rightarrow> oauthConf \<Rightarrow> world \<Rightarrow> ((error + jsval) + nat) \<times> world"
where
  "loginBegin ev conf oa w =
     (case loginLookup ev conf oa w of
        (Inl e, w1) \<Rightarrow> (Inl (Inl e), w1)
      | (Inr oldGrant, w1) \<Rightarrow>
          (case loginStart ev conf oa oldGrant w1 of
             (Inl a, w2) \<Rightarrow> (Inl (Inr a), w2)
           | (Inr server, w2) \<Rightarrow> (Inr server, w2)))"

definition login ::
  "env \<Rightarrow> remoteConfig \<Rightarrow> oauthConf \<Rightarrow> race \<Rightarrow> world \<Rightarrow> (error + jsval) \<times> world"
where
  "login ev conf oa r w =
     (case loginBegin ev conf oa w of
        (Inl settled, w2) \<Rightarrow> (settled, w2)
      | (Inr server, w2) \<Rightarrow>
          (case raceSettles server r w2 of
             (settled, w3) \<Rightarrow> loginSettle ev conf oa settled w3))"

definition oauthLogin ::
  "env \<Rightarrow> remoteConfig \<Rightarrow> (race \<Rightarrow> world \<Rightarrow> (error + jsval) \<times> world) option"
where
  "oauthLogin ev conf =
     (case oauth conf of None \<Rightarrow> None | Some oa \<Rightarrow> Some (login ev conf oa))"

subsection \<open>Counting calls in a trace\<close>

fun isLoginServer :: "event \<Rightarrow> bool" where
  "isLoginServer (LoginServer server) = True"
| "isLoginServer _ = False"

fun isCodeGrant :: "event \<Rightarrow> bool" where
  "isCodeGrant (CodeGrant url cid cs server) = True"
| "isCodeGrant _ = False"

definition loginServers :: "event list \<Rightarrow> nat" where
  "loginServers es = length (filter isLoginServer es)"

definition codeGrants :: "event list \<Rightarrow> nat" where
  "codeGrants es = length (filter isCodeGrant es)"

section \<open>Calls in flight\<close>










section \<open>The JSON built-ins\<close>

text \<open>
  \<^verbatim>\<open>JSON.stringify\<close> and \<^verbatim>\<open>JSON.parse\<close> of the language, on the values above; where a
  property depends on what the built-ins do, the environment is taken to hold these two
  functions. A text is a list of bytes.
\<close>

subsection \<open>JSON.stringify\<close>

text \<open>
  A string is quoted by escaping the quote, the backslash and the control characters. A
  number is written in decimal notation, with at most 1100 digits after the point; the
  exponent notation the language uses for very large and very small numbers is left out,
  and so are property keys that are array indices, which the language orders first. An
  object member whose value is \<^verbatim>\<open>undefined\<close> is left out, an array element that is
  \<^verbatim>\<open>undefined\<close> is written \<^verbatim>\<open>null\<close>, and \<^verbatim>\<open>undefined\<close> itself gives no text.
\<close>

definition hexDigit :: "nat \<Rightarrow> char" where
  "hexDigit d = ''0123456789abcdef'' ! d"

definition hexValue :: "char \<Rightarrow> nat option" where
  "hexValue c =
     (let n = (of_char c :: nat)
      in if 48 \<le> n \<and> n \<le> 57 then Some (n - 48)
         else if 97 \<le> n \<and> n \<le> 102 then Some (n - 87)
         else if 65 \<le> n \<and> n \<le> 70 then Some (n - 55)
         else None)"

definition escapeChar :: "char \<Rightarrow> string" where
  "escapeChar c =
     (if c = CHR 0x22 then [CHR 0x5C, CHR 0x22]
      else if c = CHR 0x5C then [CHR 0x5C, CHR 0x5C]
      else if c = CHR 0x08 then [CHR 0x5C, CHR ''b'']
      else if c = CHR 0x0C then [CHR 0x5C, CHR ''f'']
      else if c = CHR 0x0A then [CHR 0x5C, CHR ''n'']
      else if c = CHR 0x0D then [CHR 0x5C, CHR ''r'']
      else if c = CHR 0x09 then [CHR 0x5C, CHR ''t'']
      else if (of_char c :: nat) < 32 then
        [CHR 0x5C, CHR ''u'', CHR ''0'', CHR ''0'',
         hexDigit ((of_char c :: nat) div 16), hexDigit ((of_char c :: nat) mod 16)]
      else [c])"

definition quoteJSON :: "string \<Rightarrow> string" where
  "quoteJSON s = CHR 0x22 # concat (map escapeChar s) @ [CHR 0x22]"

fun showNat :: "nat \<Rightarrow> string" where
  "showNat n =
     (if n < 10 then [char_of (48 + n)] else showNat (n div 10) @ [char_of (48 + n mod 10)])"

declare showNat.simps [simp del]

fun fraction :: "nat \<Rightarrow> nat \<Rightarrow> nat \<Rightarrow> string" where
  "fraction 0 r d = []"
| "fraction (Suc k) r d =
     (if r = 0 then [] else char_of (48 + r * 10 div d) # fraction k (r * 10 mod d) d)"

definition showNumber :: "rat \<Rightarrow> string" where
  "showNumber x =
     (case quotient_of x of
        (n, d) \<Rightarrow>
          (if n < 0 then ''-'' else []) @ showNat (nat \<bar>n\<bar> div nat d)
          @ (if nat \<bar>n\<bar> mod nat d = 0 then []
             else ''.'' @ fraction 1100 (nat \<bar>n\<bar> mod nat d) (nat d)))"

fun joinWith :: "string \<Rightarrow> string list \<Rightarrow> string" where
  "joinWith sep [] = []"
| "joinWith sep [x] = x"
| "joinWith sep (x # y # ys) = x @ sep @ joinWith sep (y # ys)"

fun jsonStringify :: "jsval \<Rightarrow> string"
  and stringifyElements :: "jsval list \<Rightarrow> string list"
  and stringifyMembers :: "(string \<times> jsval) list \<Rightarrow> string list"
where
  "jsonStringify JUndefined = []"
| "jsonStringify JNull = ''null''"
| "jsonStringify (JBool b) = (if b then ''true'' else ''false'')"
| "jsonStringify (JNum x) = showNumber x"
| "jsonStringify (JStr s) = quoteJSON s"
| "jsonStringify (JArr vs) = ''['' @ joinWith '','' (stringifyElements vs) @ '']''"
| "jsonStringify (JObj kvs) = ''{'' @ joinWith '','' (stringifyMembers kvs) @ ''}''"
| "stringifyElements [] = []"
| "stringifyElements (v # vs) =
     (if v = JUndefined then ''null'' else jsonStringify v) # stringifyElements vs"
| "stringifyMembers [] = []"
| "stringifyMembers (kv # kvs) =
     (if snd kv = JUndefined then stringifyMembers kvs
      else (quoteJSON (fst kv) @ '':'' @ jsonStringify (snd kv)) # stringifyMembers kvs)"

subsection \<open>JSON.parse\<close>

text \<open>
  A recursive descent on the text, by the JSON grammar. An escape \<^verbatim>\<open>u\<close> with its four
  hexadecimal digits is read as the UTF-8 bytes of that code unit, and a number is read
  exactly. \<open>parseChars\<close> reads a string after its opening quote; \<open>parseNumber\<close> reads a
  number.
\<close>

definition utf8 :: "nat \<Rightarrow> string" where
  "utf8 n =
     (if n < 128 then [char_of n]
      else if n < 2048 then [char_of (192 + n div 64), char_of (128 + n mod 64)]
      else [char_of (224 + n div 4096), char_of (128 + n div 64 mod 64),
            char_of (128 + n mod 64)])"

definition hex4 :: "char \<Rightarrow> char \<Rightarrow> char \<Rightarrow> char \<Rightarrow> nat option" where
  "hex4 a b c d =
     (case (hexValue a, hexValue b, hexValue c, hexValue d) of
        (Some w, Some x, Some y, Some z) \<Rightarrow> Some (((w * 16 + x) * 16 + y) * 16 + z)
      | _ \<Rightarrow> None)"

definition unescape :: "char \<Rightarrow> char option" where
  "unescape e =
     (if e = CHR 0x22 \<or> e = CHR 0x5C \<or> e = CHR ''/'' then Some e
      else if e = CHR ''b'' then Some (CHR 0x08)
      else if e = CHR ''f'' then Some (CHR 0x0C)
      else if e = CHR ''n'' then Some (CHR 0x0A)
      else if e = CHR ''r'' then Some (CHR 0x0D)
      else if e = CHR ''t'' then Some (CHR 0x09)
      else None)"

fun parseChars :: "string \<Rightarrow> (string \<times> string) option" where
  "parseChars [] = None"
| "parseChars (c # cs) =
     (if c = CHR 0x22 then Some ([], cs)
      else if c = CHR 0x5C then
        (case cs of
           [] \<Rightarrow> None
         | e # es \<Rightarrow>
             if e = CHR ''u'' then
               (case es of
                  h1 # h2 # h3 # h4 # rest \<Rightarrow>
                    (case hex4 h1 h2 h3 h4 of
                       None \<Rightarrow> None
                     | Some n \<Rightarrow>
                         (case parseChars rest of
                            None \<Rightarrow> None
                          | Some (s, r) \<Rightarrow> Some (utf8 n @ s, r)))
                | _ \<Rightarrow> None)
             else
               (case unescape e of
                  None \<Rightarrow> None
                | Some ch \<Rightarrow>
                    (case parseChars es of
                       None \<Rightarrow> None
                     | Some (s, r) \<Rightarrow> Some (ch # s, r))))
      else if (of_char c :: nat) < 32 then None
      else (case parseChars cs of None \<Rightarrow> None | Some (s, r) \<Rightarrow> Some (c # s, r)))"

definition isDigit :: "char \<Rightarrow> bool" where
  "isDigit c = (48 \<le> (of_char c :: nat) \<and> (of_char c :: nat) \<le> 57)"

definition digitsValue :: "string \<Rightarrow> nat" where
  "digitsValue ds = foldl (\<lambda>n c. n * 10 + ((of_char c :: nat) - 48)) 0 ds"

definition parseNumber :: "string \<Rightarrow> (rat \<times> string) option" where
  "parseNumber s =
     (let negative = (s \<noteq> [] \<and> hd s = CHR ''-'');
          s1 = (if negative then tl s else s);
          ds = takeWhile isDigit s1;
          s2 = dropWhile isDigit s1;
          dotted = (s2 \<noteq> [] \<and> hd s2 = CHR ''.'');
          fs = (if dotted then takeWhile isDigit (tl s2) else []);
          s3 = (if dotted then dropWhile isDigit (tl s2) else s2);
          powered = (s3 \<noteq> [] \<and> (hd s3 = CHR ''e'' \<or> hd s3 = CHR ''E''));
          s4 = (if powered then tl s3 else s3);
          signed = (powered \<and> s4 \<noteq> [] \<and> (hd s4 = CHR ''+'' \<or> hd s4 = CHR ''-''));
          down = (signed \<and> hd s4 = CHR ''-'');
          s5 = (if signed then tl s4 else s4);
          es = (if powered then takeWhile isDigit s5 else []);
          s6 = (if powered then dropWhile isDigit s5 else s3);
          m = (rat_of_nat (digitsValue (ds @ fs))) / 10 ^ length fs;
          x = (if down then m / 10 ^ digitsValue es else m * 10 ^ digitsValue es)
      in if ds = [] \<or> (length ds > 1 \<and> hd ds = CHR ''0'') \<or> (dotted \<and> fs = [])
            \<or> (powered \<and> es = [])
         then None
         else Some (if negative then - x else x, s6))"

text \<open>
  Values, the elements of an array after its bracket, and the members of an object after
  its brace, each giving the value read and the rest of the text. Of two members with the
  same key the later one gives the value, at the place of the first. Every call hands on
  one unit less of fuel than it got; the descent is started with more fuel than the text
  has characters, and every call but the first has at least one character of the text
  before it that no other has. Whatever is not a JSON text is a \<^verbatim>\<open>SyntaxError\<close>.
\<close>

fun skipWs :: "string \<Rightarrow> string" where
  "skipWs [] = []"
| "skipWs (c # cs) =
     (if c = CHR '' '' \<or> c = CHR 0x09 \<or> c = CHR 0x0A \<or> c = CHR 0x0D then skipWs cs
      else c # cs)"

definition keyword :: "string \<Rightarrow> jsval \<Rightarrow> string \<Rightarrow> (jsval \<times> string) option" where
  "keyword word v s =
     (if take (length word) s = word then Some (v, drop (length word) s) else None)"

definition setProp :: "string \<Rightarrow> jsval \<Rightarrow> (string \<times> jsval) list \<Rightarrow> (string \<times> jsval) list" where
  "setProp k v kvs =
     (if k \<in> fst ` set kvs then map (\<lambda>kv. if fst kv = k then (k, v) else kv) kvs
      else kvs @ [(k, v)])"

fun parseValue :: "nat \<Rightarrow> string \<Rightarrow> (jsval \<times> string) option"
  and parseElements :: "nat \<Rightarrow> jsval list \<Rightarrow> string \<Rightarrow> (jsval \<times> string) option"
  and parseMembers :: "nat \<Rightarrow> (string \<times> jsval) list \<Rightarrow> string \<Rightarrow> (jsval \<times> string) option"
where
  "parseValue 0 s = None"
| "parseValue (Suc n) s =
     (case skipWs s of
        [] \<Rightarrow> None
      | c # r \<Rightarrow>
          if c = CHR ''{'' then
            (case skipWs r of
               [] \<Rightarrow> None
             | c' # r' \<Rightarrow> if c' = CHR ''}'' then Some (JObj [], r') else parseMembers n [] r)
          else if c = CHR ''['' then
            (case skipWs r of
               [] \<Rightarrow> None
             | c' # r' \<Rightarrow> if c' = CHR '']'' then Some (JArr [], r') else parseElements n [] r)
          else if c = CHR 0x22 then
            (case parseChars r of None \<Rightarrow> None | Some (str, r') \<Rightarrow> Some (JStr str, r'))
          else if c = CHR ''t'' then keyword ''true'' (JBool True) (c # r)
          else if c = CHR ''f'' then keyword ''false'' (JBool False) (c # r)
          else if c = CHR ''n'' then keyword ''null'' JNull (c # r)
          else (case parseNumber (c # r) of None \<Rightarrow> None | Some (x, r') \<Rightarrow> Some (JNum x, r')))"
| "parseElements 0 acc s = None"
| "parseElements (Suc n) acc s =
     (case parseValue n s of
        None \<Rightarrow> None
      | Some (v, r) \<Rightarrow>
          (case skipWs r of
             [] \<Rightarrow> None
           | c # r' \<Rightarrow>
               if c = CHR '','' then parseElements n (acc @ [v]) r'
               else if c = CHR '']'' then Some (JArr (acc @ [v]), r')
               else None))"
| "parseMembers 0 acc s = None"
| "parseMembers (Suc n) acc s =
     (case skipWs s of
        [] \<Rightarrow> None
      | c # r \<Rightarrow>
          if c = CHR 0x22 then
            (case parseChars r of
               None \<Rightarrow> None
             | Some (k, r1) \<Rightarrow>
                 (case skipWs r1 of
                    [] \<Rightarrow> None
                  | c1 # r2 \<Rightarrow>
                      if c1 = CHR '':'' then
                        (case parseValue n r2 of
                           None \<Rightarrow> None
                         | Some (v, r3) \<Rightarrow>
                             (case skipWs r3 of
                                [] \<Rightarrow> None
                              | c3 # r4 \<Rightarrow>
                                  if c3 = CHR '','' then parseMembers n (setProp k v acc) r4
                                  else if c3 = CHR ''}'' then Some (JObj (setProp k v acc), r4)
                                  else None))
                      else None))
          else None)"

definition jsonParse :: "string \<Rightarrow> error + jsval" where
  "jsonParse s =
     (case parseValue (Suc (length s)) s of
        None \<Rightarrow> Inl SyntaxError
      | Some (v, r) \<Rightarrow> if skipWs r = [] then Inr v else Inl SyntaxError)"

section \<open>An example connection\<close>

text \<open>
  The scenario of the specification: client \<^verbatim>\<open>c1\<close> with secret \<^verbatim>\<open>s1\<close> at \<^verbatim>\<open>https://host\<close>,
  credentials saved, and a grant that yields access token \<^verbatim>\<open>a1\<close>. The key function folds
  upper case to lower case; the JSON functions are the built-ins; the refresh exchange turns
  refresh token \<^verbatim>\<open>r1\<close> into a new token and rejects any other.
\<close>

definition lowerCase :: "string \<Rightarrow> string" where
  "lowerCase s =
     map (\<lambda>c. if 65 \<le> (of_char c :: nat) \<and> (of_char c :: nat) \<le> 90
               then char_of ((of_char c :: nat) + 32) else c) s"

definition recordA1 :: string where
  \<open>recordA1 = ''{"accessToken":"a1","refreshToken":"r1","tokenType":"bearer"}''\<close>

definition tokenA1 :: token where
  "tokenA1 =
     \<lparr>accessToken = JStr ''a1'', refreshToken = JStr ''r1'', tokenType = JStr ''bearer'',
      extras = [(''expires_in'', JNum 3600)]\<rparr>"

definition tokenA2 :: token where
  "tokenA2 =
     \<lparr>accessToken = JStr ''a2'', refreshToken = JStr ''r2'', tokenType = JStr ''bearer'',
      extras = [(''expires_in'', JNum 3600)]\<rparr>"

definition recordStale :: string where
  \<open>recordStale = ''{"accessToken":"a0","refreshToken":"r0","tokenType":"bearer"}''\<close>

definition recordNoRefresh :: string where
  \<open>recordNoRefresh = ''{"accessToken":"a1","tokenType":"bearer"}''\<close>

definition recordEmptyType :: string where
  \<open>recordEmptyType = ''{"accessToken":"a1","refreshToken":"r1","tokenType":""}''\<close>

definition testEnv :: env where
  "testEnv =
     \<lparr>formatKey = lowerCase,
      JSON_parse = jsonParse,
      JSON_stringify = jsonStringify,
      refresh =
        (\<lambda>opts t. if refreshToken t = JStr ''r1'' then Inr tokenA2
                   else Inl (Error ''invalid_grant''))\<rparr>"

definition testOAuth :: oauthConf where
  "testOAuth =
     \<lparr>clientId = Some ''c1'', clientSecret = Some ''s1'', loginUrl = Some ''https://host'',
      saveCredentials = True\<rparr>"

definition testConf :: remoteConfig where
  "testConf = \<lparr>name = ''DEV'', oauth = Some testOAuth\<rparr>"

definition emptyWorld :: world where
  "emptyWorld =
     \<lparr>tokens = Map.empty, pendingGrants = Map.empty,
      vault = (\<lambda>service account. Inr None), trace = []\<rparr>"

text \<open>The same connection without saved credentials, and one whose secret is missing.\<close>

definition plainOAuth :: oauthConf where
  "plainOAuth = testOAuth\<lparr>saveCredentials := False\<rparr>"

definition plainConf :: remoteConfig where
  "plainConf = \<lparr>name = ''DEV'', oauth = Some plainOAuth\<rparr>"

definition incompleteOAuth :: oauthConf where
  "incompleteOAuth = testOAuth\<lparr>clientSecret := None\<rparr>"

definition incompleteConf :: remoteConfig where
  "incompleteConf = \<lparr>name = ''DEV'', oauth = Some incompleteOAuth\<rparr>"

text \<open>Worlds whose secret store holds a given record for the connection, or fails.\<close>

definition storedWorld :: "string \<Rightarrow> world" where
  "storedWorld secret =
     emptyWorld\<lparr>vault := (\<lambda>service account.
        if service = ''vscode_git_dev'' \<and> account = ''c1'' then Inr (Some secret)
        else Inr None)\<rparr>"

definition lockedWorld :: world where
  "lockedWorld = emptyWorld\<lparr>vault := (\<lambda>service account. Inl (Error ''keychain locked''))\<rparr>"

text \<open>
  The world after one call whose grant settled first, with token \<^verbatim>\<open>a1\<close>; and the worlds
  after a first and a second call have each run up to their await.
\<close>

definition grantedWorld :: world where
  "grantedWorld = snd (login testEnv testConf testOAuth (GrantFirst (Inr tokenA1)) emptyWorld)"









section \<open>Properties\<close>

lemma lowerCase_DEV: "lowerCase ''DEV'' = ''dev''"
  by code_simp

lemma lowerCase_dev: "lowerCase ''dev'' = ''dev''"
  by code_simp

lemmas fixture = testEnv_def testConf_def testOAuth_def emptyWorld_def lowerCase_DEV lowerCase_dev
  plainOAuth_def plainConf_def incompleteOAuth_def incompleteConf_def

subsection \<open>Facts about the parts\<close>

lemma credentials_incomplete:
  "clientId oa \<in> {None, Some []} \<or> clientSecret oa \<in> {None, Some []}
     \<or> loginUrl oa \<in> {None, Some []}
   \<Longrightarrow> credentials (Some oa) = None"
  by (auto simp: credentials_def split: option.splits)

lemma fromVault_frame:
  "tokens (snd (fromVault ev conf w)) = tokens w
   \<and> pendingGrants (snd (fromVault ev conf w)) = pendingGrants w
   \<and> vault (snd (fromVault ev conf w)) = vault w
   \<and> length (trace w) \<le> length (trace (snd (fromVault ev conf w)))
   \<and> codeGrants (trace (snd (fromVault ev conf w))) = codeGrants (trace w)
   \<and> loginServers (trace (snd (fromVault ev conf w))) = loginServers (trace w)
   \<and> count_list (trace (snd (fromVault ev conf w))) (ServerClose n)
       = count_list (trace w) (ServerClose n)"
  by (auto simp: fromVault_def fromVaultTry_def call_def Let_def codeGrants_def loginServers_def
      split: option.splits sum.splits prod.splits)

lemma fromVault_result_vault:
  "vault w = vault w' \<Longrightarrow> fst (fromVault ev conf w) = fst (fromVault ev conf w')"
  by (auto simp: fromVault_def fromVaultTry_def call_def Let_def
      split: option.splits sum.splits prod.splits)

lemma loginLookup_frame:
  "tokens (snd (loginLookup ev conf oa w)) = tokens w
   \<and> pendingGrants (snd (loginLookup ev conf oa w)) = pendingGrants w
   \<and> vault (snd (loginLookup ev conf oa w)) = vault w
   \<and> length (trace w) \<le> length (trace (snd (loginLookup ev conf oa w)))
   \<and> codeGrants (trace (snd (loginLookup ev conf oa w))) = codeGrants (trace w)
   \<and> loginServers (trace (snd (loginLookup ev conf oa w))) = loginServers (trace w)
   \<and> count_list (trace (snd (loginLookup ev conf oa w))) (ServerClose n)
       = count_list (trace w) (ServerClose n)"
  using fromVault_frame [of ev conf w n] by (auto simp: loginLookup_def Let_def)

lemma loginLookup_result:
  "tokens w = tokens w' \<Longrightarrow> vault w = vault w'
   \<Longrightarrow> fst (loginLookup ev conf oa w) = fst (loginLookup ev conf oa w')"
  using fromVault_result_vault [of w w' ev conf]
  by (auto simp: loginLookup_def Let_def getToken_def)

lemma loginStart_None:
  "loginStart ev conf oa None w =
     (Inr (length (trace w)),
      w\<lparr>trace := trace w @
           [LoginServer (length (trace w)),
            CodeGrant (loginUrl oa) (clientId oa) (clientSecret oa) (length (trace w)),
            After 60000 (length (trace w))],
        pendingGrants :=
          (pendingGrants w)(formatKey ev (formatKey ev (name conf)) \<mapsto> length (trace w))\<rparr>)"
  by (simp add: loginStart_def call_def Let_def)


lemma loginBegin_awaits:
  assumes "loginBegin ev conf oa w = (Inr server, w2)"
  shows "\<exists>w1. loginLookup ev conf oa w = (Inr None, w1) \<and> server = length (trace w1)
    \<and> w2 = w1\<lparr>trace := trace w1 @
           [LoginServer server,
            CodeGrant (loginUrl oa) (clientId oa) (clientSecret oa) server,
            After 60000 server],
        pendingGrants :=
          (pendingGrants w1)(formatKey ev (formatKey ev (name conf)) \<mapsto> server)\<rparr>"
  using assms
  by (auto simp: loginBegin_def loginStart_def call_def Let_def
      split: prod.splits sum.splits option.splits)

lemma loginBegin_of_lookup:
  "loginLookup ev conf oa w = (Inr None, w1)
   \<Longrightarrow> loginBegin ev conf oa w =
         (Inr (length (trace w1)), snd (loginStart ev conf oa None w1))"
  by (simp add: loginBegin_def loginStart_None)

lemma login_awaits:
  "loginBegin ev conf oa w = (Inr server, w2)
   \<Longrightarrow> login ev conf oa r w =
         loginSettle ev conf oa (fst (raceSettles server r w2)) (snd (raceSettles server r w2))"
  by (simp add: login_def split: prod.splits)

subsection \<open>Facts about calls in flight\<close>










subsection \<open>Facts about the JSON built-ins\<close>

lemma hexValue_hexDigit: "d < 16 \<Longrightarrow> hexValue (hexDigit d) = Some d"
proof -
  have "list_all (\<lambda>d. hexValue (hexDigit d) = Some d) [0..<16]"
    by code_simp
  then show "d < 16 \<Longrightarrow> hexValue (hexDigit d) = Some d"
    by (simp add: list_all_iff)
qed

lemma hexValue_zero: "hexValue (CHR ''0'') = Some 0"
  by code_simp

lemma control_escape:
  assumes "(of_char c :: nat) < 32"
  shows "hex4 (CHR ''0'') (CHR ''0'') (hexDigit ((of_char c :: nat) div 16))
           (hexDigit ((of_char c :: nat) mod 16)) = Some (of_char c)"
    and "utf8 (of_char c) = [c]"
  using assms
  by (simp_all add: hex4_def hexValue_zero hexValue_hexDigit utf8_def)

lemma parseChars_escapeChar:
  "parseChars (escapeChar c @ rest) =
     (case parseChars rest of None \<Rightarrow> None | Some (s, r) \<Rightarrow> Some (c # s, r))"
proof -
  have u: "CHR ''b'' \<noteq> CHR ''u''" "CHR ''f'' \<noteq> CHR ''u''" "CHR ''n'' \<noteq> CHR ''u''"
    "CHR ''r'' \<noteq> CHR ''u''" "CHR ''t'' \<noteq> CHR ''u''"
    by simp_all
  show ?thesis
    by (simp add: escapeChar_def unescape_def control_escape split: option.splits)
qed

lemma parseChars_quoted:
  "parseChars (concat (map escapeChar s) @ CHR 0x22 # rest) = Some (s, rest)"
  by (induction s) (simp_all add: parseChars_escapeChar)

lemma skipWs_quote [simp]: "skipWs (quoteJSON s @ rest) = quoteJSON s @ rest"
  by (simp add: quoteJSON_def)

lemma parseValue_string:
  "parseValue (Suc n) (quoteJSON s @ rest) = Some (JStr s, rest)"
  by (simp add: quoteJSON_def parseChars_quoted)

lemma parseMembers_more:
  "parseMembers (Suc (Suc n)) acc (quoteJSON k @ CHR '':'' # quoteJSON s @ CHR '','' # rest)
     = parseMembers (Suc n) (setProp k (JStr s) acc) rest"
  using parseValue_string [of n s "CHR '','' # rest"]
  by (simp add: quoteJSON_def parseChars_quoted)

lemma parseMembers_last:
  "parseMembers (Suc (Suc n)) acc (quoteJSON k @ CHR '':'' # quoteJSON s @ CHR ''}'' # rest)
     = Some (JObj (setProp k (JStr s) acc), rest)"
  using parseValue_string [of n s "CHR ''}'' # rest"]
  by (simp add: quoteJSON_def parseChars_quoted)

lemma stringify_record:
  "jsonStringify (JObj [(k1, JStr a), (k2, JStr b), (k3, JStr c)]) =
     CHR ''{'' # quoteJSON k1 @ CHR '':'' # quoteJSON a @ CHR '','' #
       quoteJSON k2 @ CHR '':'' # quoteJSON b @ CHR '','' #
       quoteJSON k3 @ CHR '':'' # quoteJSON c @ ''}''"
  by simp

lemma parseValue_record:
  assumes "k1 \<noteq> k2" "k1 \<noteq> k3" "k2 \<noteq> k3"
  shows "parseValue (Suc (Suc (Suc (Suc (Suc n)))))
           (CHR ''{'' # quoteJSON k1 @ CHR '':'' # quoteJSON a @ CHR '','' #
            quoteJSON k2 @ CHR '':'' # quoteJSON b @ CHR '','' #
            quoteJSON k3 @ CHR '':'' # quoteJSON c @ ''}'')
         = Some (JObj [(k1, JStr a), (k2, JStr b), (k3, JStr c)], [])"
proof -
  have q: "skipWs (quoteJSON k1 @ r) = CHR 0x22 # concat (map escapeChar k1) @ CHR 0x22 # r"
    for r
    by (simp add: quoteJSON_def)
  have "parseValue (Suc (Suc (Suc (Suc (Suc n)))))
           (CHR ''{'' # quoteJSON k1 @ CHR '':'' # quoteJSON a @ CHR '','' #
            quoteJSON k2 @ CHR '':'' # quoteJSON b @ CHR '','' #
            quoteJSON k3 @ CHR '':'' # quoteJSON c @ ''}'')
        = parseMembers (Suc (Suc (Suc (Suc n)))) []
           (quoteJSON k1 @ CHR '':'' # quoteJSON a @ CHR '','' #
            quoteJSON k2 @ CHR '':'' # quoteJSON b @ CHR '','' #
            quoteJSON k3 @ CHR '':'' # quoteJSON c @ ''}'')"
    by (simp add: q del: skipWs_quote parseMembers.simps)
  also have "\<dots> = parseMembers (Suc (Suc (Suc n))) [(k1, JStr a)]
           (quoteJSON k2 @ CHR '':'' # quoteJSON b @ CHR '','' #
            quoteJSON k3 @ CHR '':'' # quoteJSON c @ ''}'')"
    by (simp add: parseMembers_more setProp_def del: parseMembers.simps)
  also have "\<dots> = parseMembers (Suc (Suc n)) [(k1, JStr a), (k2, JStr b)]
           (quoteJSON k3 @ CHR '':'' # quoteJSON c @ ''}'')"
    using assms by (simp add: parseMembers_more setProp_def del: parseMembers.simps)
  also have "\<dots> = Some (JObj [(k1, JStr a), (k2, JStr b), (k3, JStr c)], [])"
    using assms by (simp add: parseMembers_last setProp_def del: parseMembers.simps)
  finally show ?thesis .
qed

lemma jsonParse_stringify_record:
  assumes "k1 \<noteq> k2" "k1 \<noteq> k3" "k2 \<noteq> k3"
  shows "jsonParse (jsonStringify (JObj [(k1, JStr a), (k2, JStr b), (k3, JStr c)]))
           = Inr (JObj [(k1, JStr a), (k2, JStr b), (k3, JStr c)])"
proof -
  define ser where "ser = jsonStringify (JObj [(k1, JStr a), (k2, JStr b), (k3, JStr c)])"
  have "4 \<le> length ser"
    unfolding ser_def stringify_record by (simp add: quoteJSON_def)
  then obtain n where "length ser = 4 + n"
    using le_Suc_ex by blast
  then have n: "Suc (length ser) = Suc (Suc (Suc (Suc (Suc n))))"
    by simp
  have p: "parseValue (Suc (length ser)) ser
          = Some (JObj [(k1, JStr a), (k2, JStr b), (k3, JStr c)], [])"
    unfolding n unfolding ser_def stringify_record by (rule parseValue_record [OF assms])
  show ?thesis
    unfolding jsonParse_def ser_def [symmetric] p by simp
qed

subsection \<open>Facts about the examples\<close>

lemma jsonParse_examples:
  "jsonParse recordA1 = Inr (objectOf (strip tokenA1))"
  "jsonParse recordStale =
     Inr (JObj [(''accessToken'', JStr ''a0''), (''refreshToken'', JStr ''r0''),
                (''tokenType'', JStr ''bearer'')])"
  "jsonParse recordNoRefresh =
     Inr (JObj [(''accessToken'', JStr ''a1''), (''tokenType'', JStr ''bearer'')])"
  "jsonParse recordEmptyType =
     Inr (JObj [(''accessToken'', JStr ''a1''), (''refreshToken'', JStr ''r1''),
                (''tokenType'', JStr [])])"
  "jsonParse ''{oops'' = Inl SyntaxError"
  by code_simp+

lemma jsonStringify_example: "jsonStringify (objectOf (strip tokenA1)) = recordA1"
  by code_simp

lemma serialize_example: "serializeToken testEnv (strip tokenA1) = recordA1"
  by (simp add: serializeToken_def testEnv_def jsonStringify_example)

lemma lookup_example:
  "loginLookup testEnv testConf testOAuth emptyWorld
     = (Inr None, call [GetPassword ''vscode_git_dev'' ''c1''] emptyWorld)"
  by (simp add: loginLookup_def getToken_def fromVault_def fromVaultTry_def credentials_def
      vaultId_def call_def fixture)

lemma begin_example:
  "loginBegin testEnv testConf testOAuth emptyWorld =
     (Inr 1,
      \<lparr>tokens = Map.empty, pendingGrants = [''dev'' \<mapsto> 1],
       vault = (\<lambda>service account. Inr None),
       trace = [GetPassword ''vscode_git_dev'' ''c1'', LoginServer 1,
                CodeGrant (Some ''https://host'') (Some ''c1'') (Some ''s1'') 1, After 60000 1]\<rparr>)"
  by (simp add: loginBegin_of_lookup [OF lookup_example] loginStart_None)
     (simp add: call_def fixture)

lemma config_examples:
  "credentials (oauth testConf) = Some (''c1'', ''s1'', ''https://host'')"
  "vaultId testEnv (name testConf) = ''vscode_git_dev''"
  "formatKey testEnv (name testConf) = ''dev''"
  "saveCredentials testOAuth"
  by (simp_all add: credentials_def vaultId_def fixture)

lemma grantedWorld_eq:
  "grantedWorld =
     \<lparr>tokens = [''dev'' \<mapsto> tokenA1], pendingGrants = Map.empty,
      vault = (\<lambda>service account. if service = ''vscode_git_dev'' \<and> account = ''c1''
                                  then Inr (Some recordA1) else Inr None),
      trace = [GetPassword ''vscode_git_dev'' ''c1'', LoginServer 1,
               CodeGrant (Some ''https://host'') (Some ''c1'') (Some ''s1'') 1, After 60000 1,
               SetPassword ''vscode_git_dev'' ''c1'' recordA1]\<rparr>"
  by (simp add: grantedWorld_def login_def begin_example raceSettles_def)
     (auto simp: loginSettle_def setToken_def toVault_def serializeToken_def credentials_def
        jsonStringify_example
        vaultId_def call_def Let_def fixture fun_eq_iff)



lemma getProp_objectOf_strip:
  "getProp (objectOf (strip t)) ''accessToken'' = accessToken t"
  "getProp (objectOf (strip t)) ''refreshToken'' = refreshToken t"
  "getProp (objectOf (strip t)) ''tokenType'' = tokenType t"
  by (simp_all add: objectOf_def strip_def)

lemma tokenOf_objectOf_strip: "strip (tokenOf (objectOf (strip t))) = strip t"
  by (simp add: tokenOf_def objectOf_def strip_def)

lemma truthy_objectOf: "truthy (objectOf t)"
  by (simp add: objectOf_def)

lemma records_distinct:
  "recordStale \<noteq> recordA1" "recordNoRefresh \<noteq> recordA1" "recordEmptyType \<noteq> recordA1"
  "recordNoRefresh \<noteq> recordStale" "recordEmptyType \<noteq> recordStale"
  "recordEmptyType \<noteq> recordNoRefresh"
  "recordA1 \<noteq> []" "recordStale \<noteq> []" "recordNoRefresh \<noteq> []" "recordEmptyType \<noteq> []"
  by (simp_all add: recordA1_def recordStale_def recordNoRefresh_def recordEmptyType_def)

lemma deserialize_examples:
  "deserializeToken testEnv (Some recordA1) = Inr (Some (strip tokenA1))"
  "deserializeToken testEnv (Some recordStale)
     = Inr (Some (createToken (JStr ''a0'') (JStr ''r0'') (JStr ''bearer'')))"
  "deserializeToken testEnv (Some recordNoRefresh) = Inr None"
  "deserializeToken testEnv (Some recordEmptyType) = Inr None"
  "deserializeToken testEnv (Some ''{oops'') = Inl SyntaxError"
  by (simp_all add: deserializeToken_def testEnv_def jsonParse_examples records_distinct
      tokenA1_def objectOf_def tokenOf_def strip_def createToken_def tokenFields_def Let_def)

lemma vault_examples:
  "vault (storedWorld secret) ''vscode_git_dev'' ''c1'' = Inr (Some secret)"
  "vault lockedWorld ''vscode_git_dev'' ''c1'' = Inl (Error ''keychain locked'')"
  "trace (storedWorld secret) = []" "trace lockedWorld = []"
  "tokens (storedWorld secret) = Map.empty" "tokens lockedWorld = Map.empty"
  by (simp_all add: storedWorld_def lockedWorld_def emptyWorld_def)

lemma refresh_examples:
  "refresh testEnv opts (createToken (JStr ''a1'') (JStr ''r1'') (JStr ''bearer'')) = Inr tokenA2"
  "refresh testEnv opts (createToken (JStr ''a0'') (JStr ''r0'') (JStr ''bearer''))
     = Inl (Error ''invalid_grant'')"
  by (simp_all add: testEnv_def createToken_def)

lemma createToken_sel:
  "accessToken (createToken a r t) = a" "refreshToken (createToken a r t) = r"
  "tokenType (createToken a r t) = t"
  by (simp_all add: createToken_def)

lemma fromVault_examples:
  "fst (fromVault testEnv testConf (storedWorld recordA1)) = Inr (Some (strip tokenA2))"
  "fst (fromVault testEnv testConf (storedWorld recordStale)) = Inr None"
  "fst (fromVault testEnv testConf (storedWorld recordNoRefresh)) = Inr None"
  "fst (fromVault testEnv testConf (storedWorld ''{oops'')) = Inr None"
  "fst (fromVault testEnv testConf lockedWorld) = Inr None"
  by (simp_all add: fromVault_def fromVaultTry_def config_examples vault_examples
      deserialize_examples records_distinct refresh_examples createToken_sel strip_def
      tokenA1_def Let_def)








subsection \<open>The fast path\<close>

text \<open>
  C6. When the token store already holds a token for the connection, the login operation
  returns that token's accessToken and leaves the world as it was: the trace gains no call,
  so the vault is not read, no login server is built and no grant is started.
\<close>

theorem login_fast_path:
  assumes "oauthLogin ev conf = Some loginOp"
    and "getToken (formatKey ev (name conf)) w = Some t"
  shows "loginOp r w = (Inr (accessToken t), w)"
proof -
  from assms(1) obtain oa where op: "loginOp = login ev conf oa"
    by (auto simp: oauthLogin_def split: option.splits)
  show ?thesis
    using assms(2) by (simp add: op login_def loginBegin_def loginLookup_def loginStart_def)
qed

theorem login_fast_path_witness:
  "oauthLogin testEnv testConf = Some (login testEnv testConf testOAuth)
   \<and> getToken (formatKey testEnv (name testConf)) (setToken ''dev'' tokenA1 emptyWorld)
       = Some tokenA1
   \<and> login testEnv testConf testOAuth TimeoutFirst (setToken ''dev'' tokenA1 emptyWorld)
       = (Inr (JStr ''a1''), setToken ''dev'' tokenA1 emptyWorld)"
proof -
  have a: "oauthLogin testEnv testConf = Some (login testEnv testConf testOAuth)"
    by (simp add: oauthLogin_def testConf_def)
  have b: "getToken (formatKey testEnv (name testConf)) (setToken ''dev'' tokenA1 emptyWorld)
             = Some tokenA1"
    by (simp add: getToken_def setToken_def testEnv_def testConf_def lowerCase_DEV)
  from login_fast_path [OF a b, of TimeoutFirst] a b show ?thesis
    by (simp add: tokenA1_def)
qed

subsection \<open>The timeout\<close>

text \<open>
  C5. When a call has started a grant and the timer is the first promise of the race to
  settle (the grant has not settled within the 60000 ms the timer was set to), the call is
  rejected with the error "User logon timed out", and the only call it adds to the trace
  after the start of the grant is one close of its login server: the number of closes of
  that server is one more than before the call.
\<close>

theorem login_timeout:
  assumes "loginBegin ev conf oa w = (Inr server, w2)"
  shows "login ev conf oa TimeoutFirst w
           = (Inl (Error ''User logon timed out''), w2\<lparr>trace := trace w2 @ [ServerClose server]\<rparr>)
    \<and> LoginServer server \<in> set (trace w2) \<and> After 60000 server \<in> set (trace w2)
    \<and> count_list (trace (snd (login ev conf oa TimeoutFirst w))) (ServerClose server)
        = count_list (trace w) (ServerClose server) + 1"
proof -
  from loginBegin_awaits [OF assms] obtain w1 where
    look: "loginLookup ev conf oa w = (Inr None, w1)" and
    w2: "trace w2 = trace w1 @
           [LoginServer server,
            CodeGrant (loginUrl oa) (clientId oa) (clientSecret oa) server,
            After 60000 server]"
    by auto
  have l: "login ev conf oa TimeoutFirst w
           = (Inl (Error ''User logon timed out''), w2\<lparr>trace := trace w2 @ [ServerClose server]\<rparr>)"
    by (simp add: login_awaits [OF assms] raceSettles_def timeoutFires_def loginSettle_def call_def)
  have "count_list (trace w1) (ServerClose server) = count_list (trace w) (ServerClose server)"
    using loginLookup_frame [of ev conf oa w server] look by simp
  then show ?thesis
    by (simp add: l w2)
qed

theorem login_timeout_witness:
  "loginBegin testEnv testConf testOAuth emptyWorld
     = (Inr 1, snd (loginBegin testEnv testConf testOAuth emptyWorld))
   \<and> fst (login testEnv testConf testOAuth TimeoutFirst emptyWorld)
       = Inl (Error ''User logon timed out'')
   \<and> trace (snd (login testEnv testConf testOAuth TimeoutFirst emptyWorld))
       = [GetPassword ''vscode_git_dev'' ''c1'', LoginServer 1,
          CodeGrant (Some ''https://host'') (Some ''c1'') (Some ''s1'') 1, After 60000 1,
          ServerClose 1]
   \<and> count_list (trace (snd (login testEnv testConf testOAuth TimeoutFirst emptyWorld)))
        (ServerClose 1) = 1"
proof -
  have a: "loginBegin testEnv testConf testOAuth emptyWorld
     = (Inr 1, snd (loginBegin testEnv testConf testOAuth emptyWorld))"
    by (simp add: begin_example)
  from login_timeout [OF a] a show ?thesis
    by (simp add: begin_example)
qed

subsection \<open>The grant settles first\<close>




subsection \<open>The registry entry after the race\<close>

text \<open>
  C2. The call removes its entry from \<^verbatim>\<open>pendingGrants\<close> only on the line after the
  \<^verbatim>\<open>await\<close>, which a rejected race never reaches. In the example, after a rejected grant
  and after a timeout the entry of the connection is still there, holding the settled race;
  after a successful grant it is gone.
\<close>

theorem failed_grant_stays_registered:
  "fst (login testEnv testConf testOAuth (GrantFirst (Inl (Error ''access_denied''))) emptyWorld)
     = Inl (Error ''access_denied'')
   \<and> pendingGrants
       (snd (login testEnv testConf testOAuth (GrantFirst (Inl (Error ''access_denied'')))
               emptyWorld))
       (formatKey testEnv (formatKey testEnv (name testConf))) = Some 1
   \<and> fst (login testEnv testConf testOAuth TimeoutFirst emptyWorld)
     = Inl (Error ''User logon timed out'')
   \<and> pendingGrants (snd (login testEnv testConf testOAuth TimeoutFirst emptyWorld))
       (formatKey testEnv (formatKey testEnv (name testConf))) = Some 1
   \<and> pendingGrants grantedWorld (formatKey testEnv (formatKey testEnv (name testConf))) = None"
  by (simp add: login_def begin_example raceSettles_def timeoutFires_def loginSettle_def call_def
      grantedWorld_eq)
     (simp add: fixture)

subsection \<open>Two calls at once\<close>




subsection \<open>futureToken and the pending grant\<close>




subsection \<open>Incomplete credentials\<close>

text \<open>
  C10. When the \<^verbatim>\<open>oauth\<close> object is there but clientId, clientSecret or loginUrl is missing
  or empty, \<^verbatim>\<open>oauthLogin\<close> still returns the closure; \<^verbatim>\<open>fromVault\<close> gives none and
  \<^verbatim>\<open>toVault\<close> does nothing, neither touching the secret store; and a call that finds no token
  in the token store builds a login server and starts the code grant with the credentials as
  they are, returning the grant's accessToken when the grant wins the race.
\<close>

theorem incomplete_credentials_still_login:
  assumes "oauth conf = Some oa"
    and "clientId oa \<in> {None, Some []} \<or> clientSecret oa \<in> {None, Some []}
           \<or> loginUrl oa \<in> {None, Some []}"
  shows "oauthLogin ev conf = Some (login ev conf oa)
    \<and> fromVault ev conf w = (Inr None, w)
    \<and> toVault ev conf t w = w
    \<and> (getToken (formatKey ev (name conf)) w = None \<longrightarrow>
         fst (loginBegin ev conf oa w) = Inr (length (trace w))
       \<and> trace (snd (loginBegin ev conf oa w)) = trace w @
           [LoginServer (length (trace w)),
            CodeGrant (loginUrl oa) (clientId oa) (clientSecret oa) (length (trace w)),
            After 60000 (length (trace w))]
       \<and> fst (login ev conf oa (GrantFirst (Inr t)) w) = Inr (accessToken t)
       \<and> vault (snd (login ev conf oa (GrantFirst (Inr t)) w)) = vault w
       \<and> trace (snd (login ev conf oa (GrantFirst (Inr t)) w))
           = trace (snd (loginBegin ev conf oa w)))"
proof -
  have c: "credentials (oauth conf) = None"
    using assms credentials_incomplete by simp
  have fv: "fromVault ev conf w = (Inr None, w)" for w
    by (simp add: fromVault_def c)
  have tv: "toVault ev conf t w = w" for w
    by (simp add: toVault_def c)
  have ol: "oauthLogin ev conf = Some (login ev conf oa)"
    by (simp add: oauthLogin_def assms(1))
  have g: "fst (loginBegin ev conf oa w) = Inr (length (trace w))
       \<and> trace (snd (loginBegin ev conf oa w)) = trace w @
           [LoginServer (length (trace w)),
            CodeGrant (loginUrl oa) (clientId oa) (clientSecret oa) (length (trace w)),
            After 60000 (length (trace w))]
       \<and> fst (login ev conf oa (GrantFirst (Inr t)) w) = Inr (accessToken t)
       \<and> vault (snd (login ev conf oa (GrantFirst (Inr t)) w)) = vault w
       \<and> trace (snd (login ev conf oa (GrantFirst (Inr t)) w))
           = trace (snd (loginBegin ev conf oa w))"
    if "getToken (formatKey ev (name conf)) w = None"
  proof -
    have look: "loginLookup ev conf oa w = (Inr None, w)"
      using that by (simp add: loginLookup_def fv)
    show ?thesis
      by (simp add: login_def loginBegin_of_lookup [OF look] loginStart_None raceSettles_def
          loginSettle_def setToken_def tv Let_def)
  qed
  from ol fv tv g show ?thesis by blast
qed

theorem incomplete_credentials_witness:
  "oauth incompleteConf = Some incompleteOAuth
   \<and> clientSecret incompleteOAuth = None
   \<and> oauthLogin testEnv incompleteConf = Some (login testEnv incompleteConf incompleteOAuth)
   \<and> fromVault testEnv incompleteConf emptyWorld = (Inr None, emptyWorld)
   \<and> toVault testEnv incompleteConf tokenA1 emptyWorld = emptyWorld
   \<and> fst (login testEnv incompleteConf incompleteOAuth (GrantFirst (Inr tokenA1)) emptyWorld)
       = Inr (JStr ''a1'')
   \<and> trace (snd (login testEnv incompleteConf incompleteOAuth (GrantFirst (Inr tokenA1)) emptyWorld))
       = [LoginServer 0, CodeGrant (Some ''https://host'') (Some ''c1'') None 0, After 60000 0]"
proof -
  have a: "oauth incompleteConf = Some incompleteOAuth"
    by (simp add: incompleteConf_def)
  have b: "clientSecret incompleteOAuth = None"
    by (simp add: incompleteOAuth_def)
  then have b': "clientId incompleteOAuth \<in> {None, Some []}
      \<or> clientSecret incompleteOAuth \<in> {None, Some []}
      \<or> loginUrl incompleteOAuth \<in> {None, Some []}"
    by simp
  have n: "getToken (formatKey testEnv (name incompleteConf)) emptyWorld = None"
    by (simp add: getToken_def emptyWorld_def)
  from incomplete_credentials_still_login [OF a b', of testEnv emptyWorld tokenA1] a b n
  show ?thesis
    by (simp add: tokenA1_def)
       (simp add: emptyWorld_def incompleteOAuth_def testOAuth_def)
qed

subsection \<open>The vault record\<close>

text \<open>
  C7. With the JSON built-ins, for a token whose accessToken, refreshToken and tokenType
  are non-empty strings, deserializing the serialized stripped token gives back the stripped
  token, so all three fields. And whenever a text parses, by whatever \<^verbatim>\<open>JSON.parse\<close>, to a
  value in which one of the three fields is missing or the empty string,
  \<^verbatim>\<open>deserializeToken\<close> returns undefined.
\<close>

theorem vault_record_round_trip:
  "(JSON_stringify ev = jsonStringify \<and> JSON_parse ev = jsonParse
      \<and> accessToken t = JStr a \<and> refreshToken t = JStr r \<and> tokenType t = JStr ty
      \<and> a \<noteq> [] \<and> r \<noteq> [] \<and> ty \<noteq> []
     \<longrightarrow> deserializeToken ev (Some (serializeToken ev (strip t))) = Inr (Some (strip t)))
   \<and> (JSON_parse ev s = Inr u
      \<and> (\<exists>f \<in> set tokenFields. getProp u f = JUndefined \<or> getProp u f = JStr [])
     \<longrightarrow> deserializeToken ev (Some s) = Inr None)"
proof (intro conjI impI)
  assume h: "JSON_stringify ev = jsonStringify \<and> JSON_parse ev = jsonParse
      \<and> accessToken t = JStr a \<and> refreshToken t = JStr r \<and> tokenType t = JStr ty
      \<and> a \<noteq> [] \<and> r \<noteq> [] \<and> ty \<noteq> []"
  have o: "objectOf (strip t)
             = JObj [(''accessToken'', JStr a), (''refreshToken'', JStr r),
                     (''tokenType'', JStr ty)]"
    using h by (simp add: objectOf_def strip_def)
  have p: "jsonParse (jsonStringify (objectOf (strip t))) = Inr (objectOf (strip t))"
    unfolding o by (rule jsonParse_stringify_record) simp_all
  have n: "jsonStringify (objectOf (strip t)) \<noteq> []"
    unfolding o by simp
  have g: "truthy (getProp (objectOf (strip t)) ''accessToken'')"
    "truthy (getProp (objectOf (strip t)) ''refreshToken'')"
    "truthy (getProp (objectOf (strip t)) ''tokenType'')"
    using h by (simp_all add: getProp_objectOf_strip)
  show "deserializeToken ev (Some (serializeToken ev (strip t))) = Inr (Some (strip t))"
    using h p n g
    by (simp add: deserializeToken_def serializeToken_def tokenOf_objectOf_strip
        truthy_objectOf Let_def)
next
  assume "JSON_parse ev s = Inr u
      \<and> (\<exists>f \<in> set tokenFields. getProp u f = JUndefined \<or> getProp u f = JStr [])"
  then show "deserializeToken ev (Some s) = Inr None"
    by (auto simp: deserializeToken_def tokenFields_def Let_def)
qed

theorem vault_record_round_trip_witness:
  "JSON_stringify testEnv = jsonStringify \<and> JSON_parse testEnv = jsonParse
   \<and> accessToken tokenA1 = JStr ''a1'' \<and> refreshToken tokenA1 = JStr ''r1''
   \<and> tokenType tokenA1 = JStr ''bearer''
   \<and> serializeToken testEnv (strip tokenA1) = recordA1
   \<and> JSON_parse testEnv recordA1 = Inr (objectOf (strip tokenA1))
   \<and> deserializeToken testEnv (Some (serializeToken testEnv (strip tokenA1)))
       = Inr (Some \<lparr>accessToken = JStr ''a1'', refreshToken = JStr ''r1'',
                     tokenType = JStr ''bearer'', extras = []\<rparr>)
   \<and> JSON_parse testEnv recordNoRefresh
       = Inr (JObj [(''accessToken'', JStr ''a1''), (''tokenType'', JStr ''bearer'')])
   \<and> deserializeToken testEnv (Some recordNoRefresh) = Inr None
   \<and> JSON_parse testEnv recordEmptyType
       = Inr (JObj [(''accessToken'', JStr ''a1''), (''refreshToken'', JStr ''r1''),
                    (''tokenType'', JStr [])])
   \<and> deserializeToken testEnv (Some recordEmptyType) = Inr None"
proof -
  have e: "JSON_stringify testEnv = jsonStringify" "JSON_parse testEnv = jsonParse"
    by (simp_all add: testEnv_def)
  have v: "accessToken tokenA1 = JStr ''a1''" "refreshToken tokenA1 = JStr ''r1''"
    "tokenType tokenA1 = JStr ''bearer''"
    by (simp_all add: tokenA1_def)
  have p: "JSON_parse testEnv recordA1 = Inr (objectOf (strip tokenA1))"
    "JSON_parse testEnv recordNoRefresh
       = Inr (JObj [(''accessToken'', JStr ''a1''), (''tokenType'', JStr ''bearer'')])"
    "JSON_parse testEnv recordEmptyType
       = Inr (JObj [(''accessToken'', JStr ''a1''), (''refreshToken'', JStr ''r1''),
                    (''tokenType'', JStr [])])"
    by (simp_all add: e jsonParse_examples)
  have m1: "\<exists>f \<in> set tokenFields.
      getProp (JObj [(''accessToken'', JStr ''a1''), (''tokenType'', JStr ''bearer'')]) f
        = JUndefined
      \<or> getProp (JObj [(''accessToken'', JStr ''a1''), (''tokenType'', JStr ''bearer'')]) f
        = JStr []"
    by (simp add: tokenFields_def)
  have m2: "\<exists>f \<in> set tokenFields.
      getProp (JObj [(''accessToken'', JStr ''a1''), (''refreshToken'', JStr ''r1''),
                    (''tokenType'', JStr [])]) f = JUndefined
      \<or> getProp (JObj [(''accessToken'', JStr ''a1''), (''refreshToken'', JStr ''r1''),
                    (''tokenType'', JStr [])]) f = JStr []"
    by (simp add: tokenFields_def)
  have r1: "deserializeToken testEnv (Some (serializeToken testEnv (strip tokenA1)))
              = Inr (Some (strip tokenA1))"
    using vault_record_round_trip
      [where ev = testEnv and t = tokenA1 and a = "''a1''" and r = "''r1''"
         and ty = "''bearer''"] e v
    by simp
  have r2: "deserializeToken testEnv (Some recordNoRefresh) = Inr None"
    using vault_record_round_trip [where ev = testEnv and s = recordNoRefresh] p(2) m1 by blast
  have r3: "deserializeToken testEnv (Some recordEmptyType) = Inr None"
    using vault_record_round_trip [where ev = testEnv and s = recordEmptyType] p(3) m2 by blast
  show ?thesis
    using e v p r1 r2 r3 serialize_example by (simp add: strip_def)
qed

subsection \<open>Restoring from the vault\<close>

text \<open>
  C8. Whenever \<^verbatim>\<open>fromVault\<close> gives some token, the configuration was complete, the secret
  store held a record that deserialized to a token data, the refresh exchange was called on
  a token handle made of the stored accessToken, refreshToken and tokenType (the trace holds
  the read and then the refresh) and resolved, and what is handed back is the stripped
  response of that exchange, not the stored record.
\<close>

theorem vault_restore_refreshes:
  assumes "fromVault ev conf w = (Inr (Some t), w')"
  shows "\<exists>cid cs url s td tok.
      credentials (oauth conf) = Some (cid, cs, url)
    \<and> vault w (vaultId ev (name conf)) cid = Inr (Some s)
    \<and> deserializeToken ev (Some s) = Inr (Some td)
    \<and> refresh ev (oauthOptions url cid cs)
         (createToken (accessToken td) (refreshToken td) (tokenType td)) = Inr tok
    \<and> t = strip tok
    \<and> trace w' = trace w @
        [GetPassword (vaultId ev (name conf)) cid,
         Refresh (oauthOptions url cid cs)
           (createToken (accessToken td) (refreshToken td) (tokenType td))]"
  using assms
  by (auto simp: fromVault_def fromVaultTry_def call_def Let_def
      split: option.splits sum.splits prod.splits if_splits)

theorem vault_restore_refreshes_witness:
  "fromVault testEnv testConf (storedWorld recordA1)
     = (Inr (Some (strip tokenA2)), snd (fromVault testEnv testConf (storedWorld recordA1)))
   \<and> accessToken (strip tokenA2) = JStr ''a2''
   \<and> (\<exists>s td tok.
        vault (storedWorld recordA1) ''vscode_git_dev'' ''c1'' = Inr (Some s)
      \<and> deserializeToken testEnv (Some s) = Inr (Some td)
      \<and> accessToken td = JStr ''a1''
      \<and> refresh testEnv (oauthOptions ''https://host'' ''c1'' ''s1'')
           (createToken (accessToken td) (refreshToken td) (tokenType td)) = Inr tok
      \<and> strip tokenA2 = strip tok
      \<and> trace (snd (fromVault testEnv testConf (storedWorld recordA1))) =
          [GetPassword ''vscode_git_dev'' ''c1'',
           Refresh (oauthOptions ''https://host'' ''c1'' ''s1'')
             (createToken (accessToken td) (refreshToken td) (tokenType td))])"
proof -
  have a: "fromVault testEnv testConf (storedWorld recordA1)
     = (Inr (Some (strip tokenA2)), snd (fromVault testEnv testConf (storedWorld recordA1)))"
    using fromVault_examples(1) by (simp add: prod_eq_iff)
  from vault_restore_refreshes [OF a] obtain cid cs url s td tok where
    h: "credentials (oauth testConf) = Some (cid, cs, url)"
       "vault (storedWorld recordA1) (vaultId testEnv (name testConf)) cid = Inr (Some s)"
       "deserializeToken testEnv (Some s) = Inr (Some td)"
       "refresh testEnv (oauthOptions url cid cs)
         (createToken (accessToken td) (refreshToken td) (tokenType td)) = Inr tok"
       "strip tokenA2 = strip tok"
       "trace (snd (fromVault testEnv testConf (storedWorld recordA1)))
          = trace (storedWorld recordA1) @
        [GetPassword (vaultId testEnv (name testConf)) cid,
         Refresh (oauthOptions url cid cs)
           (createToken (accessToken td) (refreshToken td) (tokenType td))]"
    by blast
  from h(1) have c: "cid = ''c1''" "cs = ''s1''" "url = ''https://host''"
    by (simp_all add: config_examples)
  from h(2) have s: "s = recordA1"
    by (simp add: c config_examples vault_examples)
  from h(3) have td: "td = strip tokenA1"
    by (simp add: s deserialize_examples)
  have "accessToken td = JStr ''a1''"
    by (simp add: td strip_def tokenA1_def)
  with h a show ?thesis
    unfolding c config_examples vault_examples
    by (auto simp: strip_def tokenA2_def)
qed

text \<open>
  C9. The promise of \<^verbatim>\<open>fromVault\<close> never rejects. With complete credentials, a failing read
  of the secret store, a record that \<^verbatim>\<open>JSON.parse\<close> refuses, a record without the required
  fields and a rejected refresh exchange each give none. And when \<^verbatim>\<open>saveCredentials\<close> is set,
  the token store has no token and the vault gives none, the call goes on to build a login
  server and start a grant.
\<close>

theorem vault_load_never_rejects:
  "(\<exists>r. fst (fromVault ev conf w) = Inr r)
   \<and> (credentials (oauth conf) = Some (cid, cs, url) \<longrightarrow>
        (vault w (vaultId ev (name conf)) cid = Inl e \<longrightarrow> fst (fromVault ev conf w) = Inr None)
      \<and> (vault w (vaultId ev (name conf)) cid = Inr (Some s)
           \<and> deserializeToken ev (Some s) = Inl e
           \<longrightarrow> fst (fromVault ev conf w) = Inr None)
      \<and> (vault w (vaultId ev (name conf)) cid = Inr (Some s)
           \<and> deserializeToken ev (Some s) = Inr None
           \<longrightarrow> fst (fromVault ev conf w) = Inr None)
      \<and> (vault w (vaultId ev (name conf)) cid = Inr (Some s)
           \<and> deserializeToken ev (Some s) = Inr (Some td)
           \<and> refresh ev (oauthOptions url cid cs)
                (createToken (accessToken td) (refreshToken td) (tokenType td)) = Inl e
           \<longrightarrow> fst (fromVault ev conf w) = Inr None))
   \<and> (saveCredentials oa \<and> getToken (formatKey ev (name conf)) w = None
        \<and> fst (fromVault ev conf w) = Inr None
      \<longrightarrow> (\<exists>server. fst (loginBegin ev conf oa w) = Inr server
            \<and> LoginServer server \<in> set (trace (snd (loginBegin ev conf oa w)))))"
proof -
  have 1: "\<exists>r. fst (fromVault ev conf w) = Inr r"
    by (auto simp: fromVault_def split: option.splits sum.splits prod.splits)
  have 2: "(vault w (vaultId ev (name conf)) cid = Inl e \<longrightarrow> fst (fromVault ev conf w) = Inr None)
      \<and> (vault w (vaultId ev (name conf)) cid = Inr (Some s)
           \<and> deserializeToken ev (Some s) = Inl e
           \<longrightarrow> fst (fromVault ev conf w) = Inr None)
      \<and> (vault w (vaultId ev (name conf)) cid = Inr (Some s)
           \<and> deserializeToken ev (Some s) = Inr None
           \<longrightarrow> fst (fromVault ev conf w) = Inr None)
      \<and> (vault w (vaultId ev (name conf)) cid = Inr (Some s)
           \<and> deserializeToken ev (Some s) = Inr (Some td)
           \<and> refresh ev (oauthOptions url cid cs)
                (createToken (accessToken td) (refreshToken td) (tokenType td)) = Inl e
           \<longrightarrow> fst (fromVault ev conf w) = Inr None)"
    if "credentials (oauth conf) = Some (cid, cs, url)"
    using that by (simp add: fromVault_def fromVaultTry_def Let_def)
  have 3: "\<exists>server. fst (loginBegin ev conf oa w) = Inr server
            \<and> LoginServer server \<in> set (trace (snd (loginBegin ev conf oa w)))"
    if "saveCredentials oa \<and> getToken (formatKey ev (name conf)) w = None
        \<and> fst (fromVault ev conf w) = Inr None"
  proof -
    from that have "loginLookup ev conf oa w = (Inr None, snd (fromVault ev conf w))"
      by (simp add: loginLookup_def prod_eq_iff)
    from loginBegin_of_lookup [OF this] show ?thesis
      by (simp add: loginStart_None)
  qed
  from 1 2 3 show ?thesis by blast
qed

theorem vault_load_never_rejects_witness:
  "credentials (oauth testConf) = Some (''c1'', ''s1'', ''https://host'')
   \<and> vault lockedWorld (vaultId testEnv (name testConf)) ''c1'' = Inl (Error ''keychain locked'')
   \<and> fst (fromVault testEnv testConf lockedWorld) = Inr None
   \<and> vault (storedWorld ''{oops'') (vaultId testEnv (name testConf)) ''c1'' = Inr (Some ''{oops'')
   \<and> deserializeToken testEnv (Some ''{oops'') = Inl SyntaxError
   \<and> fst (fromVault testEnv testConf (storedWorld ''{oops'')) = Inr None
   \<and> vault (storedWorld recordNoRefresh) (vaultId testEnv (name testConf)) ''c1''
       = Inr (Some recordNoRefresh)
   \<and> deserializeToken testEnv (Some recordNoRefresh) = Inr None
   \<and> fst (fromVault testEnv testConf (storedWorld recordNoRefresh)) = Inr None
   \<and> vault (storedWorld recordStale) (vaultId testEnv (name testConf)) ''c1''
       = Inr (Some recordStale)
   \<and> deserializeToken testEnv (Some recordStale)
       = Inr (Some (createToken (JStr ''a0'') (JStr ''r0'') (JStr ''bearer'')))
   \<and> refresh testEnv (oauthOptions ''https://host'' ''c1'' ''s1'')
        (createToken (JStr ''a0'') (JStr ''r0'') (JStr ''bearer'')) = Inl (Error ''invalid_grant'')
   \<and> fst (fromVault testEnv testConf (storedWorld recordStale)) = Inr None
   \<and> saveCredentials testOAuth
   \<and> getToken (formatKey testEnv (name testConf)) (storedWorld recordStale) = None
   \<and> fst (loginBegin testEnv testConf testOAuth (storedWorld recordStale)) = Inr 2
   \<and> LoginServer 2
       \<in> set (trace (snd (loginBegin testEnv testConf testOAuth (storedWorld recordStale))))"
proof -
  note c = config_examples(1)
  have v: "vault lockedWorld (vaultId testEnv (name testConf)) ''c1''
             = Inl (Error ''keychain locked'')"
    "vault (storedWorld ''{oops'') (vaultId testEnv (name testConf)) ''c1'' = Inr (Some ''{oops'')"
    "vault (storedWorld recordNoRefresh) (vaultId testEnv (name testConf)) ''c1''
       = Inr (Some recordNoRefresh)"
    "vault (storedWorld recordStale) (vaultId testEnv (name testConf)) ''c1''
       = Inr (Some recordStale)"
    by (simp_all add: config_examples vault_examples)
  have d: "createToken (accessToken (createToken (JStr ''a0'') (JStr ''r0'') (JStr ''bearer'')))
             (refreshToken (createToken (JStr ''a0'') (JStr ''r0'') (JStr ''bearer'')))
             (tokenType (createToken (JStr ''a0'') (JStr ''r0'') (JStr ''bearer'')))
           = createToken (JStr ''a0'') (JStr ''r0'') (JStr ''bearer'')"
    by (simp add: createToken_sel)
  have n: "getToken (formatKey testEnv (name testConf)) (storedWorld recordStale) = None"
    by (simp add: getToken_def vault_examples)
  have n': "getToken ''dev'' (storedWorld recordStale) = None"
    by (simp add: getToken_def vault_examples)
  have r1: "fst (fromVault testEnv testConf lockedWorld) = Inr None"
    using vault_load_never_rejects
      [of testEnv testConf lockedWorld "''c1''" "''s1''" "''https://host''"
          "Error ''keychain locked''"] c v(1)
    by blast
  have r2: "fst (fromVault testEnv testConf (storedWorld ''{oops'')) = Inr None"
    using vault_load_never_rejects
      [of testEnv testConf "storedWorld ''{oops''" "''c1''" "''s1''" "''https://host''"
          SyntaxError "''{oops''"] c v(2) deserialize_examples(5)
    by blast
  have r3: "fst (fromVault testEnv testConf (storedWorld recordNoRefresh)) = Inr None"
    using vault_load_never_rejects
      [of testEnv testConf "storedWorld recordNoRefresh" "''c1''" "''s1''" "''https://host''"
          _ recordNoRefresh] c v(3) deserialize_examples(3)
    by blast
  have r4: "fst (fromVault testEnv testConf (storedWorld recordStale)) = Inr None"
    using vault_load_never_rejects
      [of testEnv testConf "storedWorld recordStale" "''c1''" "''s1''" "''https://host''"
          "Error ''invalid_grant''" recordStale
          "createToken (JStr ''a0'') (JStr ''r0'') (JStr ''bearer'')"]
      c v(4) deserialize_examples(2) refresh_examples(2) d
    by simp
  have "\<exists>server. fst (loginBegin testEnv testConf testOAuth (storedWorld recordStale)) = Inr server
      \<and> LoginServer server
          \<in> set (trace (snd (loginBegin testEnv testConf testOAuth (storedWorld recordStale))))"
    using vault_load_never_rejects
      [of testEnv testConf "storedWorld recordStale" _ _ _ _ _ _ testOAuth]
      config_examples(4) n r4
    by blast
  moreover have "fst (loginBegin testEnv testConf testOAuth (storedWorld recordStale)) = Inr 2"
    by (simp add: loginBegin_def loginLookup_def n' config_examples fromVault_def fromVaultTry_def
        vault_examples deserialize_examples records_distinct refresh_examples createToken_sel
        loginStart_None call_def Let_def split: prod.splits)
  ultimately have r5: "fst (loginBegin testEnv testConf testOAuth (storedWorld recordStale)) = Inr 2
      \<and> LoginServer 2
          \<in> set (trace (snd (loginBegin testEnv testConf testOAuth (storedWorld recordStale))))"
    by auto
  show ?thesis
    using c v n r1 r2 r3 r4 r5 config_examples(4) deserialize_examples refresh_examples
    by simp
qed

end
